theory Spec2Isabelle
  imports Main
begin

section \<open>Azure port opening: \<open>sky/provision/azure/instance.py\<close>\<close>

subsection \<open>Data model\<close>

text \<open>
  A security rule as the code reads and builds it: the nine keyword arguments of
  \<open>azure.create_security_rule\<close> in \<open>open_ports\<close>. Directions, protocols and access modes
  are the strings the code compares and passes (\<open>rule.direction == 'Inbound'\<close>).
  Priorities are Python integers.
\<close>

record security_rule =
  name :: string
  priority :: int
  protocol :: string
  access :: string
  direction :: string
  source_address_prefix :: string
  source_port_range :: string
  destination_address_prefix :: string
  destination_port_ranges :: "string list"

text \<open>
  A network security group: \<open>nsg.name\<close> (here \<open>nsg_name\<close>, since \<open>name\<close> is the rule's
  field) and \<open>nsg.security_rules\<close>, an ordered list.
\<close>

record nsg =
  nsg_name :: string
  security_rules :: "security_rule list"

text \<open>
  Modelled from the spec: \<open>azure.create_security_rule\<close> lives in \<open>sky/adaptors/azure.py\<close>,
  which is not part of the excerpt. It builds the rule object from its keyword arguments
  (spec 4.1: "construct a new inbound rule: name, priority, protocol, access, source
  address/port, destination address, destination ports").
\<close>

definition create_security_rule ::
  "string \<Rightarrow> int \<Rightarrow> string \<Rightarrow> string \<Rightarrow> string \<Rightarrow> string \<Rightarrow> string \<Rightarrow> string
     \<Rightarrow> string list \<Rightarrow> security_rule" where
  "create_security_rule nm prio proto acc dir src_addr src_port dst_addr dst_ports =
     \<lparr> name = nm, priority = prio, protocol = proto, access = acc, direction = dir,
       source_address_prefix = src_addr, source_port_range = src_port,
       destination_address_prefix = dst_addr, destination_port_ranges = dst_ports \<rparr>"

subsection \<open>The scan of one group's rules\<close>

text \<open>
  The inner loop \<open>for rule in nsg.security_rules\<close> (lines 55-62). The state of the loop is
  \<open>max_inbound_priority\<close>, \<open>rule_exist\<close> and the rule list, which the loop mutates in place
  (\<open>rule.destination_port_ranges.extend(ports)\<close>). The priority is updated before the
  name is compared, and \<open>break\<close> leaves the rest of the list unvisited.
\<close>

fun scan_rules ::
  "string \<Rightarrow> string list \<Rightarrow> int \<Rightarrow> security_rule list \<Rightarrow> int \<times> bool \<times> security_rule list" where
  "scan_rules rule_name ports max_inbound_priority [] = (max_inbound_priority, False, [])"
| "scan_rules rule_name ports max_inbound_priority (rule # rest) =
     (let m = (if direction rule = ''Inbound''
               then max max_inbound_priority (priority rule)
               else max_inbound_priority)
      in if name rule = rule_name
         then (m, True,
               rule\<lparr>destination_port_ranges := destination_port_ranges rule @ ports\<rparr> # rest)
         else (case scan_rules rule_name ports m rest of
                 (m', rule_exist, rest') \<Rightarrow> (m', rule_exist, rule # rest')))"

text \<open>
  The body of the \<open>try\<close> block up to the store call (lines 53-75): the group object as it is
  handed to \<open>create_or_update\<close>.
\<close>

definition reconcile_nsg :: "string \<Rightarrow> string list \<Rightarrow> nsg \<Rightarrow> nsg" where
  "reconcile_nsg rule_name ports g =
     (case scan_rules rule_name ports 0 (security_rules g) of
        (max_inbound_priority, rule_exist, rules) \<Rightarrow>
          if \<not> rule_exist
          then g\<lparr>security_rules := rules @
                 [create_security_rule rule_name (max_inbound_priority + 1)
                    ''Tcp'' ''Allow'' ''Inbound'' ''*'' ''*'' ''*'' ports]\<rparr>
          else g\<lparr>security_rules := rules\<rparr>)"

subsection \<open>Python values, errors and string rendering\<close>

text \<open>
  The exceptions the code can raise. \<open>AssertionError\<close> carries the message of the
  \<open>assert\<close> (the cluster name), \<open>KeyError\<close> the missing key, \<open>AttributeError\<close> its message.
  \<open>HttpResponseError\<close> is the class \<open>azure.http_error_exception()\<close> returns, with the text
  \<open>str(e)\<close>. \<open>TypeError\<close> is what the interpreter raises when a resolved attribute is
  called with arguments it does not take (its text is not modelled).
\<close>

datatype py_error =
    AssertionError string
  | KeyError string
  | AttributeError string
  | HttpResponseError string
  | TypeError

text \<open>
  \<open>repr\<close> of a Python string whose characters are the code points 0 to 0xff: single
  quotes unless the string has a single quote and no double quote; backslash and the
  quote escaped; tab, newline and carriage return as \<open>\t\<close>, \<open>\n\<close>, \<open>\r\<close>; the code
  points Python does not count as printable (below 0x20, 0x7f to 0xa0, and 0xad) as
  \<open>\xhh\<close>; every other character as it is.
\<close>

definition hex_digit :: "nat \<Rightarrow> char" where
  "hex_digit n = ''0123456789abcdef'' ! (n mod 16)"

definition py_repr_char :: "char \<Rightarrow> char \<Rightarrow> string" where
  "py_repr_char quote c =
     (if c = quote \<or> c = CHR 0x5C then [CHR 0x5C, c]
      else if c = CHR 0x09 then [CHR 0x5C, CHR ''t'']
      else if c = CHR 0x0A then [CHR 0x5C, CHR ''n'']
      else if c = CHR 0x0D then [CHR 0x5C, CHR ''r'']
      else if (of_char c :: nat) < 32 \<or>
              (127 \<le> (of_char c :: nat) \<and> (of_char c :: nat) \<le> 160) \<or> c = CHR 0xAD
           then [CHR 0x5C, CHR ''x'', hex_digit (of_char c div 16), hex_digit (of_char c)]
      else [c])"

definition py_repr :: "string \<Rightarrow> string" where
  "py_repr s =
     (let quote = (if CHR 0x27 \<in> set s \<and> CHR 0x22 \<notin> set s then CHR 0x22 else CHR 0x27)
      in quote # concat (map (py_repr_char quote) s) @ [quote])"

fun join :: "string \<Rightarrow> string list \<Rightarrow> string" where
  "join sep [] = []"
| "join sep [x] = x"
| "join sep (x # y # ys) = x @ sep @ join sep (y # ys)"

text \<open>\<open>str\<close> of a list of strings, as an f-string renders \<open>{ports}\<close>.\<close>

definition py_str_list :: "string list \<Rightarrow> string" where
  "py_str_list xs = ''['' @ join '', '' (map py_repr xs) @ '']''"

subsection \<open>The SDK client object and \<open>get_azure_sdk_function\<close>\<close>

text \<open>
  The two operations of the SDK's security-group client that \<open>open_ports\<close> looks up.
  An attribute value is \<open>None\<close>, a string or one of these bound methods.
\<close>

datatype sdk_op = ListOp | CreateOrUpdateOp

datatype py_value = PyNone | PyStr string | PyCallable sdk_op

text \<open>
  A client object, as far as \<open>getattr\<close> and the error message see it: the name of its type,
  its \<open>__name__\<close> when it has one (modules, classes and functions do, an instance of a class
  does not, unless the class gives it one) and its other attributes.
\<close>

record client =
  type_name :: string
  dunder_name :: "string option"
  attrs :: "string \<rightharpoonup> py_value"

definition getattr :: "client \<Rightarrow> string \<Rightarrow> py_value option" where
  "getattr c n = (if n = ''__name__'' then map_option PyStr (dunder_name c) else attrs c n)"

text \<open>
  Lines 22-28. The three-argument \<open>getattr\<close> returns the default when the attribute is
  missing; the inner call is the default of the outer one. The message is built
  with \<open>obj={client.__name__}\<close>, a one-element set, so \<open>str.format\<close> renders
  \<open>{'<name>'}\<close>; reading \<open>client.__name__\<close> on an object without it raises
  \<open>AttributeError\<close> itself, before the message is built.
\<close>

definition get_azure_sdk_function :: "client \<Rightarrow> string \<Rightarrow> py_error + py_value" where
  "get_azure_sdk_function c function_name =
     (let func = (case getattr c function_name of
                    Some v \<Rightarrow> v
                  | None \<Rightarrow> (case getattr c (''begin_'' @ function_name) of
                               Some v \<Rightarrow> v
                             | None \<Rightarrow> PyNone))
      in if func = PyNone
         then (case dunder_name c of
                 None \<Rightarrow> Inl (AttributeError
                   ([CHR 0x27] @ type_name c @ [CHR 0x27] @
                    '' object has no attribute '' @ [CHR 0x27] @ ''__name__'' @ [CHR 0x27]))
               | Some nm \<Rightarrow> Inl (AttributeError
                   ([CHR 0x22] @ ''{'' @ py_repr nm @ ''}'' @ [CHR 0x22] @
                    '' object has no '' @ function_name @
                    '' or begin_'' @ function_name @ '' attribute'')))
         else Inr func)"

subsection \<open>The security-group store\<close>

text \<open>The calls made on the store, in order.\<close>

datatype store_call =
    ListCall string
  | CreateOrUpdateCall string string nsg

text \<open>
  Modelled from the spec: the cloud control plane and \<open>azure.get_client\<close> are outside the
  excerpt (spec 6: "list(resourceGroup) enumerates groups; read-only", "createOrUpdate
  (resourceGroup, groupName, group): idempotent full replace of a group's rule set; may
  raise a platform HTTP error"). The world holds, per subscription, the client object
  that \<open>get_client('network', subscription_id).network_security_groups\<close> returns and the
  groups of each resource group in listing order; \<open>http_error\<close> says which writes the
  platform refuses and with what text; \<open>calls\<close> and \<open>log\<close> record the store calls and the
  lines given to \<open>logger.warning\<close>.
\<close>

record world =
  network_security_groups :: "string \<Rightarrow> client"
  nsgs :: "string \<Rightarrow> string \<Rightarrow> nsg list"
  http_error :: "string \<Rightarrow> string \<Rightarrow> nsg \<Rightarrow> string option"
  calls :: "store_call list"
  log :: "string list"

definition put_nsg :: "string \<Rightarrow> nsg \<Rightarrow> nsg list \<Rightarrow> nsg list" where
  "put_nsg n g gs =
     (if n \<in> nsg_name ` set gs
      then map (\<lambda>h. if nsg_name h = n then g else h) gs
      else gs @ [g])"

text \<open>
  Calling the resolved \<open>list\<close> attribute with one argument, and the resolved
  \<open>create_or_update\<close> attribute with three. The listing is taken as a snapshot.
\<close>

fun call_list :: "py_value \<Rightarrow> string \<Rightarrow> string \<Rightarrow> world \<Rightarrow> (py_error + nsg list) \<times> world" where
  "call_list (PyCallable ListOp) subscription_id resource_group w =
     (Inr (nsgs w subscription_id resource_group),
      w\<lparr>calls := calls w @ [ListCall resource_group]\<rparr>)"
| "call_list _ subscription_id resource_group w = (Inl TypeError, w)"

fun call_update ::
  "py_value \<Rightarrow> string \<Rightarrow> string \<Rightarrow> string \<Rightarrow> nsg \<Rightarrow> world \<Rightarrow> py_error option \<times> world" where
  "call_update (PyCallable CreateOrUpdateOp) subscription_id resource_group n g w =
     (let w1 = w\<lparr>calls := calls w @ [CreateOrUpdateCall resource_group n g]\<rparr>
      in case http_error w resource_group n g of
           Some e \<Rightarrow> (Some (HttpResponseError e), w1)
         | None \<Rightarrow>
             (None, w1\<lparr>nsgs := (nsgs w1)(subscription_id :=
                 (nsgs w1 subscription_id)(resource_group :=
                    put_nsg n g (nsgs w1 subscription_id resource_group)))\<rparr>))"
| "call_update _ subscription_id resource_group n g w = (Some TypeError, w)"

subsection \<open>\<open>open_ports\<close>\<close>

definition warning_line :: "string list \<Rightarrow> string \<Rightarrow> string \<Rightarrow> string" where
  "warning_line ports n e =
     ''Failed to open ports '' @ py_str_list ports @ '' in NSG '' @ n @ '': '' @ e"

text \<open>
  The loop \<open>for nsg in list_network_security_groups(resource_group)\<close> (lines 48-79): the
  \<open>except\<close> clause catches the HTTP error only, logs a warning and goes on to the next
  group; any other exception leaves the loop.
\<close>

fun for_each_nsg ::
  "py_value \<Rightarrow> string \<Rightarrow> string \<Rightarrow> string \<Rightarrow> string list \<Rightarrow> nsg list \<Rightarrow> world
     \<Rightarrow> py_error option \<times> world" where
  "for_each_nsg update subscription_id resource_group rule_name ports [] w = (None, w)"
| "for_each_nsg update subscription_id resource_group rule_name ports (g # gs) w =
     (let g' = reconcile_nsg rule_name ports g
      in case call_update update subscription_id resource_group (nsg_name g') g' w of
           (None, w') \<Rightarrow>
             for_each_nsg update subscription_id resource_group rule_name ports gs w'
         | (Some err, w') \<Rightarrow>
             (case err of
                HttpResponseError e \<Rightarrow>
                  for_each_nsg update subscription_id resource_group rule_name ports gs
                    (w'\<lparr>log := log w' @ [warning_line ports (nsg_name g') e]\<rparr>)
              | _ \<Rightarrow> (Some err, w')))"

text \<open>
  \<open>open_ports\<close> (lines 31-79). The result is the exception that reaches the caller, if
  any, and the world as the call leaves it.
\<close>

definition open_ports ::
  "string \<Rightarrow> string list \<Rightarrow> (string \<rightharpoonup> string) option \<Rightarrow> world \<Rightarrow> py_error option \<times> world" where
  "open_ports cluster_name_on_cloud ports provider_config w =
     (case provider_config of
        None \<Rightarrow> (Some (AssertionError cluster_name_on_cloud), w)
      | Some cfg \<Rightarrow>
     (case cfg ''subscription_id'' of
        None \<Rightarrow> (Some (KeyError ''subscription_id''), w)
      | Some subscription_id \<Rightarrow>
     (case cfg ''resource_group'' of
        None \<Rightarrow> (Some (KeyError ''resource_group''), w)
      | Some resource_group \<Rightarrow>
     (case get_azure_sdk_function (network_security_groups w subscription_id)
             ''create_or_update'' of
        Inl e \<Rightarrow> (Some e, w)
      | Inr update_network_security_groups \<Rightarrow>
     (case get_azure_sdk_function (network_security_groups w subscription_id) ''list'' of
        Inl e \<Rightarrow> (Some e, w)
      | Inr list_network_security_groups \<Rightarrow>
     (let rule_name = ''sky-ports-'' @ cluster_name_on_cloud
      in case call_list list_network_security_groups subscription_id resource_group w of
           (Inl e, w1) \<Rightarrow> (Some e, w1)
         | (Inr groups, w1) \<Rightarrow>
             for_each_nsg update_network_security_groups subscription_id resource_group
               rule_name ports groups w1))))))"

text \<open>\<open>cleanup_ports\<close> (lines 82-89) deletes its arguments and returns.\<close>

definition cleanup_ports :: "string \<Rightarrow> (string \<rightharpoonup> string) option \<Rightarrow> world \<Rightarrow> py_error option \<times> world" where
  "cleanup_ports cluster_name_on_cloud provider_config w = (None, w)"

subsection \<open>Notions used in the statements\<close>

definition inbound_priorities :: "security_rule list \<Rightarrow> int list" where
  "inbound_priorities rules = map priority (filter (\<lambda>r. direction r = ''Inbound'') rules)"

text \<open>
  What the store holds for a group after the loop has passed it, given the platform's
  refusals \<open>h\<close>: the reconciled group when the write is accepted, the old one otherwise;
  and the warning lines the pass over the group leaves in the log.
\<close>

definition stored_nsg ::
  "(string \<Rightarrow> string \<Rightarrow> nsg \<Rightarrow> string option) \<Rightarrow> string \<Rightarrow> string \<Rightarrow> string list \<Rightarrow> nsg \<Rightarrow> nsg" where
  "stored_nsg h rg rn ports g =
     (let g' = reconcile_nsg rn ports g in if h rg (nsg_name g') g' = None then g' else g)"

definition warnings_for ::
  "(string \<Rightarrow> string \<Rightarrow> nsg \<Rightarrow> string option) \<Rightarrow> string \<Rightarrow> string \<Rightarrow> string list \<Rightarrow> nsg
     \<Rightarrow> string list" where
  "warnings_for h rg rn ports g =
     (let g' = reconcile_nsg rn ports g
      in case h rg (nsg_name g') g' of
           None \<Rightarrow> []
         | Some e \<Rightarrow> [warning_line ports (nsg_name g') e])"

text \<open>
  The configuration names subscription \<open>sub\<close> and resource group \<open>rg\<close>, and the client of
  that subscription exposes both operations, under either name.
\<close>

definition ready :: "(string \<rightharpoonup> string) \<Rightarrow> world \<Rightarrow> string \<Rightarrow> string \<Rightarrow> bool" where
  "ready cfg w sub rg \<longleftrightarrow>
     cfg ''subscription_id'' = Some sub \<and> cfg ''resource_group'' = Some rg \<and>
     get_azure_sdk_function (network_security_groups w sub) ''create_or_update''
       = Inr (PyCallable CreateOrUpdateOp) \<and>
     get_azure_sdk_function (network_security_groups w sub) ''list''
       = Inr (PyCallable ListOp)"

text \<open>
  The destination port ranges of the cluster's rule in a group: those of the first rule of
  that name, the one the scan finds; \<open>None\<close> when the group has no such rule.
\<close>

definition binding_ports :: "string \<Rightarrow> nsg \<Rightarrow> string list option" where
  "binding_ports rn g =
     map_option destination_port_ranges (find (\<lambda>r. name r = rn) (security_rules g))"

subsection \<open>Example worlds\<close>

text \<open>
  A client as a current SDK has it (\<open>list\<close> kept its name, \<open>create_or_update\<close> became
  \<open>begin_create_or_update\<close>), a configuration, and worlds with given groups and refusals.
\<close>

definition sdk0 :: client where
  "sdk0 = \<lparr> type_name = ''NetworkSecurityGroupsOperations'', dunder_name = None,
            attrs = [''list'' \<mapsto> PyCallable ListOp,
                     ''begin_create_or_update'' \<mapsto> PyCallable CreateOrUpdateOp] \<rparr>"

definition cfg0 :: "string \<rightharpoonup> string" where
  "cfg0 = [''subscription_id'' \<mapsto> ''s1'', ''resource_group'' \<mapsto> ''rg1'']"

definition world_of :: "nsg list \<Rightarrow> (string \<Rightarrow> string \<Rightarrow> nsg \<Rightarrow> string option) \<Rightarrow> world" where
  "world_of gs h =
     \<lparr> network_security_groups = (\<lambda>sub. sdk0),
       nsgs = (\<lambda>sub rg. if sub = ''s1'' \<and> rg = ''rg1'' then gs else []),
       http_error = h, calls = [], log = [] \<rparr>"

definition no_errors :: "string \<Rightarrow> string \<Rightarrow> nsg \<Rightarrow> string option" where
  "no_errors rg n g = None"

definition ssh_rule :: security_rule where
  "ssh_rule = \<lparr> name = ''default-allow-ssh'', priority = 100, protocol = ''Tcp'',
       access = ''Allow'', direction = ''Inbound'', source_address_prefix = ''*'',
       source_port_range = ''*'', destination_address_prefix = ''*'',
       destination_port_ranges = [''22''] \<rparr>"

definition nsg_A :: nsg where
  "nsg_A = \<lparr> nsg_name = ''nsg-A'', security_rules = [ssh_rule] \<rparr>"

definition cluster_rule :: security_rule where
  "cluster_rule = \<lparr> name = ''sky-ports-c1'', priority = 101, protocol = ''Tcp'',
       access = ''Allow'', direction = ''Inbound'', source_address_prefix = ''*'',
       source_port_range = ''*'', destination_address_prefix = ''*'',
       destination_port_ranges = [''8000''] \<rparr>"

definition nsg_B :: nsg where
  "nsg_B = \<lparr> nsg_name = ''nsg-B'', security_rules = [ssh_rule, cluster_rule] \<rparr>"

definition outbound_rule :: security_rule where
  "outbound_rule = \<lparr> name = ''sky-ports-c1'', priority = 100, protocol = ''Tcp'',
       access = ''Allow'', direction = ''Outbound'', source_address_prefix = ''*'',
       source_port_range = ''*'', destination_address_prefix = ''*'',
       destination_port_ranges = [''443''] \<rparr>"

definition nsg_C :: nsg where
  "nsg_C = \<lparr> nsg_name = ''nsg-C'', security_rules = [ssh_rule, outbound_rule] \<rparr>"

definition nsg_G1 :: nsg where
  "nsg_G1 = \<lparr> nsg_name = ''G1'', security_rules = [] \<rparr>"

definition nsg_G2 :: nsg where
  "nsg_G2 = \<lparr> nsg_name = ''G2'', security_rules = [ssh_rule] \<rparr>"

definition nsg_G3 :: nsg where
  "nsg_G3 = \<lparr> nsg_name = ''G3'', security_rules = [cluster_rule] \<rparr>"

definition refuse_G2 :: "string \<Rightarrow> string \<Rightarrow> nsg \<Rightarrow> string option" where
  "refuse_G2 rg n g = (if n = ''G2'' then Some ''(Conflict)'' else None)"

definition cfg_no_rg :: "string \<rightharpoonup> string" where
  "cfg_no_rg = [''subscription_id'' \<mapsto> ''s1'']"

definition bare_client :: client where
  "bare_client = \<lparr> type_name = ''NetworkSecurityGroupsOperations'', dunder_name = None,
                    attrs = Map.empty \<rparr>"

definition new_rule_G1 :: security_rule where
  "new_rule_G1 = \<lparr> name = ''sky-ports-c1'', priority = 1, protocol = ''Tcp'',
       access = ''Allow'', direction = ''Inbound'', source_address_prefix = ''*'',
       source_port_range = ''*'', destination_address_prefix = ''*'',
       destination_port_ranges = [''8000'', ''8001-8010''] \<rparr>"

definition empty_ports_rule :: security_rule where
  "empty_ports_rule = \<lparr> name = ''sky-ports-c1'', priority = 101, protocol = ''Tcp'',
       access = ''Allow'', direction = ''Inbound'', source_address_prefix = ''*'',
       source_port_range = ''*'', destination_address_prefix = ''*'',
       destination_port_ranges = [] \<rparr>"

subsection \<open>Facts about the scan\<close>

lemma scan_rules_absent:
  "\<forall>r \<in> set rules. name r \<noteq> rule_name \<Longrightarrow>
   scan_rules rule_name ports m rules =
     (Max (insert m (set (inbound_priorities rules))), False, rules)"
proof (induction rules arbitrary: m)
  case Nil
  then show ?case by (simp add: inbound_priorities_def)
next
  case (Cons r rules)
  have fin: "finite (set (inbound_priorities rules))" by simp
  show ?case
  proof (cases "direction r = ''Inbound''")
    case True
    have "Max (insert (max m (priority r)) (set (inbound_priorities rules)))
          = Max (insert m (insert (priority r) (set (inbound_priorities rules))))"
      using fin by (cases "set (inbound_priorities rules) = {}") (simp_all add: max.assoc)
    with Cons True show ?thesis by (simp add: inbound_priorities_def)
  next
    case False
    with Cons show ?thesis by (simp add: inbound_priorities_def)
  qed
qed

lemma scan_rules_present:
  "\<forall>r \<in> set pre. name r \<noteq> rule_name \<Longrightarrow> name r = rule_name \<Longrightarrow>
   snd (scan_rules rule_name ports m (pre @ r # post)) =
     (True, pre @ r\<lparr>destination_port_ranges := destination_port_ranges r @ ports\<rparr> # post)"
  by (induction pre arbitrary: m) (simp_all add: Let_def case_prod_beta)

lemma nsg_name_reconcile_nsg [simp]:
  "nsg_name (reconcile_nsg rule_name ports g) = nsg_name g"
  by (simp add: reconcile_nsg_def split: prod.splits)

lemma reconcile_nsg_absent:
  assumes "\<forall>r \<in> set (security_rules g). name r \<noteq> rule_name"
  shows "reconcile_nsg rule_name ports g =
           g\<lparr>security_rules := security_rules g @
              [create_security_rule rule_name
                 (Max (insert 0 (set (inbound_priorities (security_rules g)))) + 1)
                 ''Tcp'' ''Allow'' ''Inbound'' ''*'' ''*'' ''*'' ports]\<rparr>"
  using scan_rules_absent [OF assms, of ports 0] by (simp add: reconcile_nsg_def)

lemma reconcile_nsg_present:
  assumes "security_rules g = pre @ r # post"
    and "\<forall>p \<in> set pre. name p \<noteq> rule_name" and "name r = rule_name"
  shows "reconcile_nsg rule_name ports g =
           g\<lparr>security_rules :=
               pre @ r\<lparr>destination_port_ranges := destination_port_ranges r @ ports\<rparr> # post\<rparr>"
  using scan_rules_present [OF assms(2,3), of ports 0 post] assms(1)
  by (simp add: reconcile_nsg_def case_prod_beta)

subsection \<open>Facts about the store and the loop over the groups\<close>

lemma put_nsg_replace:
  assumes "distinct (map nsg_name (pre @ g # gs))" and "nsg_name g' = nsg_name g"
  shows "put_nsg (nsg_name g) g' (pre @ g # gs) = pre @ g' # gs"
proof -
  have out: "nsg_name g \<notin> nsg_name ` set pre" "nsg_name g \<notin> nsg_name ` set gs"
    using assms(1) by simp_all
  have ne_pre: "nsg_name x \<noteq> nsg_name g" if "x \<in> set pre" for x
    using that out(1) by (metis imageI)
  have ne_gs: "nsg_name x \<noteq> nsg_name g" if "x \<in> set gs" for x
    using that out(2) by (metis imageI)
  have a: "map (\<lambda>h. if nsg_name h = nsg_name g then g' else h) pre = pre"
    by (rule map_idI) (simp add: ne_pre)
  have b: "map (\<lambda>h. if nsg_name h = nsg_name g then g' else h) gs = gs"
    by (rule map_idI) (simp add: ne_gs)
  show ?thesis by (simp add: put_nsg_def a b)
qed

lemma call_update_accept:
  "http_error w rg n g = None \<Longrightarrow>
   call_update (PyCallable CreateOrUpdateOp) sub rg n g w =
     (None, w\<lparr>calls := calls w @ [CreateOrUpdateCall rg n g],
               nsgs := (nsgs w)(sub := (nsgs w sub)(rg := put_nsg n g (nsgs w sub rg)))\<rparr>)"
  by (simp add: Let_def)

lemma call_update_refuse:
  "http_error w rg n g = Some e \<Longrightarrow>
   call_update (PyCallable CreateOrUpdateOp) sub rg n g w =
     (Some (HttpResponseError e), w\<lparr>calls := calls w @ [CreateOrUpdateCall rg n g]\<rparr>)"
  by (simp add: Let_def)

lemma for_each_nsg_Cons_accept:
  "http_error w rg (nsg_name g) (reconcile_nsg rn ports g) = None \<Longrightarrow>
   for_each_nsg (PyCallable CreateOrUpdateOp) sub rg rn ports (g # gs) w =
   for_each_nsg (PyCallable CreateOrUpdateOp) sub rg rn ports gs
     (w\<lparr>calls := calls w @ [CreateOrUpdateCall rg (nsg_name g) (reconcile_nsg rn ports g)],
        nsgs := (nsgs w)(sub := (nsgs w sub)(rg :=
                  put_nsg (nsg_name g) (reconcile_nsg rn ports g) (nsgs w sub rg)))\<rparr>)"
  by (simp add: Let_def call_update_accept del: call_update.simps)

lemma for_each_nsg_Cons_refuse:
  "http_error w rg (nsg_name g) (reconcile_nsg rn ports g) = Some e \<Longrightarrow>
   for_each_nsg (PyCallable CreateOrUpdateOp) sub rg rn ports (g # gs) w =
   for_each_nsg (PyCallable CreateOrUpdateOp) sub rg rn ports gs
     (w\<lparr>calls := calls w @ [CreateOrUpdateCall rg (nsg_name g) (reconcile_nsg rn ports g)],
        log := log w @ [warning_line ports (nsg_name g) e]\<rparr>)"
  by (simp add: Let_def call_update_refuse del: call_update.simps)

lemma for_each_nsg_run:
  "fst (for_each_nsg (PyCallable CreateOrUpdateOp) sub rg rn ports gs w) = None \<and>
   calls (snd (for_each_nsg (PyCallable CreateOrUpdateOp) sub rg rn ports gs w)) =
     calls w @ map (\<lambda>g. CreateOrUpdateCall rg (nsg_name g) (reconcile_nsg rn ports g)) gs \<and>
   log (snd (for_each_nsg (PyCallable CreateOrUpdateOp) sub rg rn ports gs w)) =
     log w @ concat (map (warnings_for (http_error w) rg rn ports) gs) \<and>
   http_error (snd (for_each_nsg (PyCallable CreateOrUpdateOp) sub rg rn ports gs w)) =
     http_error w \<and>
   network_security_groups (snd (for_each_nsg (PyCallable CreateOrUpdateOp) sub rg rn ports gs w)) =
     network_security_groups w"
proof (induction gs arbitrary: w)
  case Nil
  then show ?case by simp
next
  case (Cons g gs)
  show ?case
  proof (cases "http_error w rg (nsg_name g) (reconcile_nsg rn ports g)")
    case None
    show ?thesis
      unfolding for_each_nsg_Cons_accept [OF None]
      using None by (simp add: Cons.IH warnings_for_def)
  next
    case (Some e)
    show ?thesis
      unfolding for_each_nsg_Cons_refuse [OF Some]
      using Some by (simp add: Cons.IH warnings_for_def)
  qed
qed

lemma for_each_nsg_nsgs:
  "nsgs w sub rg = pre @ gs \<Longrightarrow> distinct (map nsg_name (pre @ gs)) \<Longrightarrow>
   nsgs (snd (for_each_nsg (PyCallable CreateOrUpdateOp) sub rg rn ports gs w)) sub rg
     = pre @ map (stored_nsg (http_error w) rg rn ports) gs"
proof (induction gs arbitrary: w pre)
  case Nil
  then show ?case by simp
next
  case (Cons g gs)
  let ?g' = "reconcile_nsg rn ports g"
  show ?case
  proof (cases "http_error w rg (nsg_name g) ?g'")
    case None
    let ?w' = "w\<lparr>calls := calls w @ [CreateOrUpdateCall rg (nsg_name g) ?g'],
        nsgs := (nsgs w)(sub := (nsgs w sub)(rg := put_nsg (nsg_name g) ?g' (nsgs w sub rg)))\<rparr>"
    have n: "nsgs ?w' sub rg = (pre @ [?g']) @ gs"
      using Cons.prems put_nsg_replace [of pre g gs ?g'] by simp
    have d: "distinct (map nsg_name ((pre @ [?g']) @ gs))"
      using Cons.prems(2) by simp
    show ?thesis
      unfolding for_each_nsg_Cons_accept [OF None]
      using Cons.IH [OF n d] None by (simp add: stored_nsg_def)
  next
    case (Some e)
    let ?w' = "w\<lparr>calls := calls w @ [CreateOrUpdateCall rg (nsg_name g) ?g'],
        log := log w @ [warning_line ports (nsg_name g) e]\<rparr>"
    have n: "nsgs ?w' sub rg = (pre @ [g]) @ gs"
      using Cons.prems by simp
    have d: "distinct (map nsg_name ((pre @ [g]) @ gs))"
      using Cons.prems(2) by simp
    show ?thesis
      unfolding for_each_nsg_Cons_refuse [OF Some]
      using Cons.IH [OF n d] Some by (simp add: stored_nsg_def)
  qed
qed

subsection \<open>Facts about \<open>open_ports\<close>\<close>

lemma open_ports_run:
  "ready cfg w sub rg \<Longrightarrow>
   open_ports c ports (Some cfg) w =
     for_each_nsg (PyCallable CreateOrUpdateOp) sub rg (''sky-ports-'' @ c) ports
       (nsgs w sub rg) (w\<lparr>calls := calls w @ [ListCall rg]\<rparr>)"
  by (simp add: open_ports_def ready_def)

lemma open_ports_calls:
  "ready cfg w sub rg \<Longrightarrow>
   calls (snd (open_ports c ports (Some cfg) w)) =
     calls w @ ListCall rg #
       map (\<lambda>g. CreateOrUpdateCall rg (nsg_name g) (reconcile_nsg (''sky-ports-'' @ c) ports g))
         (nsgs w sub rg)"
  by (simp add: open_ports_run for_each_nsg_run)

lemma open_ports_writes:
  "ready cfg w sub rg \<Longrightarrow> g \<in> set (nsgs w sub rg) \<Longrightarrow>
   CreateOrUpdateCall rg (nsg_name g) (reconcile_nsg (''sky-ports-'' @ c) ports g)
     \<in> set (calls (snd (open_ports c ports (Some cfg) w)))"
  by (simp add: open_ports_calls)

lemma open_ports_nsgs:
  "ready cfg w sub rg \<Longrightarrow> distinct (map nsg_name (nsgs w sub rg)) \<Longrightarrow>
   nsgs (snd (open_ports c ports (Some cfg) w)) sub rg =
     map (stored_nsg (http_error w) rg (''sky-ports-'' @ c) ports) (nsgs w sub rg)"
  using for_each_nsg_nsgs [of "w\<lparr>calls := calls w @ [ListCall rg]\<rparr>" sub rg "[]" "nsgs w sub rg"
      "''sky-ports-'' @ c" ports]
  by (simp add: open_ports_run)

lemma Max_floor_gt:
  "p \<in> set ps \<Longrightarrow> p < Max (insert (0::int) (set ps)) + 1"
  using Max_ge [of "insert 0 (set ps)" p] by simp

lemma Max_floor_nonneg:
  "\<exists>p \<in> set ps. (0::int) \<le> p \<Longrightarrow> Max (insert 0 (set ps)) = Max (set ps)"
proof -
  assume a: "\<exists>p \<in> set ps. (0::int) \<le> p"
  then obtain p where p: "p \<in> set ps" "0 \<le> p" by blast
  have ne: "set ps \<noteq> {}" using p by auto
  have "p \<le> Max (set ps)" by (rule Max_ge) (simp_all add: p)
  with p have "0 \<le> Max (set ps)" by linarith
  then show ?thesis using ne by (simp add: max_def)
qed

lemma inbound_priorities_append:
  "inbound_priorities (xs @ ys) = inbound_priorities xs @ inbound_priorities ys"
  by (simp add: inbound_priorities_def)

lemma inbound_priorities_extend:
  "inbound_priorities (pre @ r\<lparr>destination_port_ranges := d\<rparr> # post) =
   inbound_priorities (pre @ r # post)"
  by (simp add: inbound_priorities_def)

lemma reconcile_nsg_distinct:
  assumes "distinct (inbound_priorities (security_rules g))"
  shows "distinct (inbound_priorities (security_rules (reconcile_nsg rn ports g)))"
proof (cases "\<exists>r \<in> set (security_rules g). name r = rn")
  case True
  then obtain pre r post where s: "security_rules g = pre @ r # post" "name r = rn"
    "\<forall>p \<in> set pre. name p \<noteq> rn"
    using split_list_first_prop [of "security_rules g" "\<lambda>r. name r = rn"] by blast
  show ?thesis
    using assms reconcile_nsg_present [OF s(1) s(3) s(2), of ports]
    by (simp add: inbound_priorities_extend s(1))
next
  case False
  then have a: "\<forall>r \<in> set (security_rules g). name r \<noteq> rn" by blast
  let ?ps = "inbound_priorities (security_rules g)"
  have "Max (insert 0 (set ?ps)) + 1 \<notin> set ?ps"
    using Max_floor_gt [of "Max (insert 0 (set ?ps)) + 1" ?ps] by blast
  then show ?thesis
    using assms reconcile_nsg_absent [OF a, of ports]
    by (simp add: inbound_priorities_append)
       (simp add: inbound_priorities_def create_security_rule_def)
qed

lemma open_ports_returns:
  "ready cfg w sub rg \<Longrightarrow> fst (open_ports c ports (Some cfg) w) = None"
  by (simp add: open_ports_run for_each_nsg_run)

lemma warnings_for_text:
  "warnings_for h rg rn ports =
     (\<lambda>g. case h rg (nsg_name g) (reconcile_nsg rn ports g) of
            None \<Rightarrow> []
          | Some e \<Rightarrow>
              [''Failed to open ports '' @ py_str_list ports @ '' in NSG '' @ nsg_name g
                 @ '': '' @ e])"
  by (rule ext) (simp add: warnings_for_def warning_line_def Let_def split: option.split)

lemma open_ports_log:
  "ready cfg w sub rg \<Longrightarrow>
   log (snd (open_ports c ports (Some cfg) w)) =
     log w @ concat (map (warnings_for (http_error w) rg (''sky-ports-'' @ c) ports)
                       (nsgs w sub rg))"
  by (simp add: open_ports_run for_each_nsg_run)

lemma open_ports_keeps_platform:
  "ready cfg w sub rg \<Longrightarrow>
   http_error (snd (open_ports c ports (Some cfg) w)) = http_error w \<and>
   network_security_groups (snd (open_ports c ports (Some cfg) w)) = network_security_groups w"
  by (simp add: open_ports_run for_each_nsg_run)

lemma nsg_name_stored_nsg [simp]:
  "nsg_name (stored_nsg h rg rn ports g) = nsg_name g"
  by (simp add: stored_nsg_def Let_def)

lemma reconcile_nsg_no_ports:
  assumes "\<exists>r \<in> set (security_rules g). name r = rn"
  shows "reconcile_nsg rn [] g = g"
proof -
  obtain pre r post where s: "security_rules g = pre @ r # post" "name r = rn"
    "\<forall>p \<in> set pre. name p \<noteq> rn"
    using split_list_first_prop [OF assms] by blast
  have "reconcile_nsg rn [] g = g\<lparr>security_rules := security_rules g\<rparr>"
    using reconcile_nsg_present [OF s(1) s(3) s(2), of "[]"] by (simp add: s(1))
  then show ?thesis by simp
qed

lemma find_first_match:
  "\<forall>p \<in> set pre. \<not> P p \<Longrightarrow> P r \<Longrightarrow> find P (pre @ r # post) = Some r"
  by (induction pre) simp_all

lemma find_no_match:
  "\<forall>p \<in> set xs. \<not> P p \<Longrightarrow> find P xs = None"
  by (induction xs) simp_all

lemma binding_ports_reconcile_nsg:
  "binding_ports rn (reconcile_nsg rn ports g) =
     Some ((case binding_ports rn g of None \<Rightarrow> [] | Some d \<Rightarrow> d) @ ports)"
proof (cases "\<exists>r \<in> set (security_rules g). name r = rn")
  case True
  then obtain pre r post where s: "security_rules g = pre @ r # post" "name r = rn"
    "\<forall>p \<in> set pre. name p \<noteq> rn"
    using split_list_first_prop [of "security_rules g" "\<lambda>r. name r = rn"] by blast
  have a: "binding_ports rn g = Some (destination_port_ranges r)"
    using find_first_match [of pre "\<lambda>r. name r = rn" r post] s
    by (simp add: binding_ports_def)
  have b: "binding_ports rn (reconcile_nsg rn ports g) = Some (destination_port_ranges r @ ports)"
    using find_first_match [of pre "\<lambda>r. name r = rn"
        "r\<lparr>destination_port_ranges := destination_port_ranges r @ ports\<rparr>" post] s
      reconcile_nsg_present [OF s(1) s(3) s(2), of ports]
    by (simp add: binding_ports_def)
  show ?thesis by (simp add: a b)
next
  case False
  then have n: "\<forall>r \<in> set (security_rules g). name r \<noteq> rn" by blast
  have a: "binding_ports rn g = None"
    using find_no_match [of "security_rules g" "\<lambda>r. name r = rn"] n
    by (simp add: binding_ports_def)
  have b: "binding_ports rn (reconcile_nsg rn ports g) = Some ports"
    using find_first_match [of "security_rules g" "\<lambda>r. name r = rn"
        "create_security_rule rn (Max (insert 0 (set (inbound_priorities (security_rules g)))) + 1)
           ''Tcp'' ''Allow'' ''Inbound'' ''*'' ''*'' ''*'' ports" "[]"] n
      reconcile_nsg_absent [OF n, of ports]
    by (simp add: binding_ports_def create_security_rule_def)
  show ?thesis by (simp add: a b)
qed

subsection \<open>Facts about \<open>get_azure_sdk_function\<close>\<close>

text \<open>
  Facts on \<open>get_azure_sdk_function\<close>: an attribute under the plain name is returned, an
  attribute under the \<open>begin_\<close> name is returned when the plain one is missing, and on a
  client that has a \<open>__name__\<close> the error message names both.
\<close>

lemma get_azure_sdk_function_plain:
  "getattr c f = Some v \<Longrightarrow> v \<noteq> PyNone \<Longrightarrow> get_azure_sdk_function c f = Inr v"
  by (simp add: get_azure_sdk_function_def)

lemma get_azure_sdk_function_begin:
  "getattr c f = None \<Longrightarrow> getattr c (''begin_'' @ f) = Some v \<Longrightarrow> v \<noteq> PyNone \<Longrightarrow>
   get_azure_sdk_function c f = Inr v"
  by (simp add: get_azure_sdk_function_def)

lemma get_azure_sdk_function_neither_named:
  "getattr c f = None \<Longrightarrow> getattr c (''begin_'' @ f) = None \<Longrightarrow> dunder_name c = Some nm \<Longrightarrow>
   get_azure_sdk_function c f =
     Inl (AttributeError ([CHR 0x22] @ ''{'' @ py_repr nm @ ''}'' @ [CHR 0x22] @
            '' object has no '' @ f @ '' or begin_'' @ f @ '' attribute''))"
  by (simp add: get_azure_sdk_function_def)

subsection \<open>Facts about the example worlds\<close>

lemma ready_world_of: "ready cfg0 (world_of gs h) ''s1'' ''rg1''"
  by (simp add: ready_def cfg0_def world_of_def sdk0_def get_azure_sdk_function_def getattr_def)

lemma nsgs_world_of: "nsgs (world_of gs h) ''s1'' ''rg1'' = gs"
  by (simp add: world_of_def)

lemma py_repr_example:
  "py_repr [CHR ''a'', CHR 0xA0, CHR 0x27, CHR 0x0A, CHR 0xE9] =
     [CHR 0x22, CHR ''a'', CHR 0x5C, CHR ''x'', CHR ''a'', CHR ''0'', CHR 0x27,
      CHR 0x5C, CHR ''n'', CHR 0xE9, CHR 0x22]"
  by (simp add: py_repr_def py_repr_char_def hex_digit_def Let_def)

lemma warning_line_example:
  "warning_line [''8000'', ''8001-8010''] ''nsg-A'' ''(Conflict)'' =
     ''Failed to open ports ['' @ [CHR 0x27] @ ''8000'' @ [CHR 0x27] @ '', '' @
     [CHR 0x27] @ ''8001-8010'' @ [CHR 0x27] @ ''] in NSG nsg-A: (Conflict)''"
  by (simp add: warning_line_def py_str_list_def py_repr_def py_repr_char_def Let_def)

section \<open>The properties of the specification\<close>

text \<open>
  Claim C1. In a group with no rule named \<open>sky-ports-<cluster>\<close> the call writes the group
  back with one new rule at its end, whose priority is one more than the maximum of the
  inbound priorities, the maximum being taken from 0 upward as the code does
  (\<open>max_inbound_priority = 0\<close>): it is greater than every inbound priority, it is 1 when
  the group has no inbound rule, and it is the largest inbound priority plus one as soon
  as one inbound priority is not negative.
\<close>

theorem open_ports_new_rule_priority:
  assumes "ready cfg w sub rg" and "g \<in> set (nsgs w sub rg)"
    and "\<forall>r \<in> set (security_rules g). name r \<noteq> ''sky-ports-'' @ c"
  shows "\<exists>new.
     CreateOrUpdateCall rg (nsg_name g) (g\<lparr>security_rules := security_rules g @ [new]\<rparr>)
       \<in> set (calls (snd (open_ports c ports (Some cfg) w))) \<and>
     priority new = Max (insert 0 (set (inbound_priorities (security_rules g)))) + 1 \<and>
     (\<forall>p \<in> set (inbound_priorities (security_rules g)). p < priority new) \<and>
     (inbound_priorities (security_rules g) = [] \<longrightarrow> priority new = 1) \<and>
     ((\<exists>p \<in> set (inbound_priorities (security_rules g)). 0 \<le> p) \<longrightarrow>
        priority new = Max (set (inbound_priorities (security_rules g))) + 1)"
proof -
  let ?ps = "inbound_priorities (security_rules g)"
  let ?new = "create_security_rule (''sky-ports-'' @ c) (Max (insert 0 (set ?ps)) + 1)
                ''Tcp'' ''Allow'' ''Inbound'' ''*'' ''*'' ''*'' ports"
  have w: "CreateOrUpdateCall rg (nsg_name g) (g\<lparr>security_rules := security_rules g @ [?new]\<rparr>)
       \<in> set (calls (snd (open_ports c ports (Some cfg) w)))"
    using open_ports_writes [OF assms(1,2), of c ports] reconcile_nsg_absent [OF assms(3), of ports]
    by simp
  have p: "priority ?new = Max (insert 0 (set ?ps)) + 1"
    by (simp add: create_security_rule_def)
  have gt: "\<forall>p \<in> set ?ps. p < priority ?new"
    unfolding p using Max_floor_gt by blast
  have e: "?ps = [] \<longrightarrow> priority ?new = 1"
    unfolding p by simp
  have n: "(\<exists>p \<in> set ?ps. 0 \<le> p) \<longrightarrow> priority ?new = Max (set ?ps) + 1"
    unfolding p using Max_floor_nonneg [of ?ps] by simp
  from w p gt e n show ?thesis by blast
qed

theorem open_ports_new_rule_priority_witness:
  "ready cfg0 (world_of [nsg_A] no_errors) ''s1'' ''rg1'' \<and>
   nsg_A \<in> set (nsgs (world_of [nsg_A] no_errors) ''s1'' ''rg1'') \<and>
   map name (security_rules nsg_A) = [''default-allow-ssh''] \<and>
   (\<exists>new.
     CreateOrUpdateCall ''rg1'' ''nsg-A'' (nsg_A\<lparr>security_rules := [ssh_rule, new]\<rparr>)
       \<in> set (calls (snd (open_ports ''c1'' [''8000''] (Some cfg0) (world_of [nsg_A] no_errors)))) \<and>
     priority new = 101)"
proof -
  have r: "ready cfg0 (world_of [nsg_A] no_errors) ''s1'' ''rg1''"
    by (rule ready_world_of)
  have m: "nsg_A \<in> set (nsgs (world_of [nsg_A] no_errors) ''s1'' ''rg1'')"
    by (simp add: nsgs_world_of)
  have a: "\<forall>r \<in> set (security_rules nsg_A). name r \<noteq> ''sky-ports-'' @ ''c1''"
    by (simp add: nsg_A_def ssh_rule_def)
  have i: "inbound_priorities (security_rules nsg_A) = [100]"
    by (simp add: inbound_priorities_def nsg_A_def ssh_rule_def)
  from open_ports_new_rule_priority [OF r m a, of "[''8000'']"]
  obtain new where
    "CreateOrUpdateCall ''rg1'' (nsg_name nsg_A)
       (nsg_A\<lparr>security_rules := security_rules nsg_A @ [new]\<rparr>)
       \<in> set (calls (snd (open_ports ''c1'' [''8000''] (Some cfg0) (world_of [nsg_A] no_errors))))"
    and "priority new = Max (insert 0 (set (inbound_priorities (security_rules nsg_A)))) + 1"
    by blast
  then have "CreateOrUpdateCall ''rg1'' ''nsg-A'' (nsg_A\<lparr>security_rules := [ssh_rule, new]\<rparr>)
       \<in> set (calls (snd (open_ports ''c1'' [''8000''] (Some cfg0) (world_of [nsg_A] no_errors))))
     \<and> priority new = 101"
    unfolding i by (simp add: nsg_A_def)
  moreover have "map name (security_rules nsg_A) = [''default-allow-ssh'']"
    by (simp add: nsg_A_def ssh_rule_def)
  ultimately show ?thesis using r m by blast
qed

text \<open>
  Claim C2. Whatever writes the platform refuses, the call returns without an exception,
  \<open>create_or_update\<close> is called once for every listed group, in order, with the reconciled
  group, every refusal adds to the log the line \<open>Failed to open ports <ports> in NSG
  <group>: <error>\<close> with the ports rendered as Python renders a list of strings, and
  (group names being distinct) each group whose write was accepted is stored reconciled
  while a refused one stays as it was. The witness lists G1, G2, G3 with the write of G2
  refused and gives the logged line as it reads.
\<close>

theorem open_ports_continues_after_http_error:
  assumes "ready cfg w sub rg"
  shows "fst (open_ports c ports (Some cfg) w) = None \<and>
     calls (snd (open_ports c ports (Some cfg) w)) =
       calls w @ ListCall rg #
         map (\<lambda>g. CreateOrUpdateCall rg (nsg_name g)
                     (reconcile_nsg (''sky-ports-'' @ c) ports g))
           (nsgs w sub rg) \<and>
     log (snd (open_ports c ports (Some cfg) w)) =
       log w @ concat (map
         (\<lambda>g. case http_error w rg (nsg_name g) (reconcile_nsg (''sky-ports-'' @ c) ports g) of
                None \<Rightarrow> []
              | Some e \<Rightarrow>
                  [''Failed to open ports '' @ py_str_list ports @ '' in NSG '' @ nsg_name g
                     @ '': '' @ e])
         (nsgs w sub rg)) \<and>
     (distinct (map nsg_name (nsgs w sub rg)) \<longrightarrow>
        nsgs (snd (open_ports c ports (Some cfg) w)) sub rg =
          map (stored_nsg (http_error w) rg (''sky-ports-'' @ c) ports) (nsgs w sub rg))"
  using open_ports_returns [OF assms] open_ports_calls [OF assms]
    open_ports_log [OF assms, unfolded warnings_for_text] open_ports_nsgs [OF assms]
  by blast

theorem open_ports_continues_after_http_error_witness:
  "ready cfg0 (world_of [nsg_G1, nsg_G2, nsg_G3] refuse_G2) ''s1'' ''rg1'' \<and>
   refuse_G2 ''rg1'' ''G2'' (reconcile_nsg ''sky-ports-c1'' [''8000'', ''8001-8010''] nsg_G2)
     = Some ''(Conflict)'' \<and>
   fst (open_ports ''c1'' [''8000'', ''8001-8010''] (Some cfg0)
          (world_of [nsg_G1, nsg_G2, nsg_G3] refuse_G2)) = None \<and>
   calls (snd (open_ports ''c1'' [''8000'', ''8001-8010''] (Some cfg0)
                 (world_of [nsg_G1, nsg_G2, nsg_G3] refuse_G2))) =
     [ListCall ''rg1'',
      CreateOrUpdateCall ''rg1'' ''G1'' (nsg_G1\<lparr>security_rules := [new_rule_G1]\<rparr>),
      CreateOrUpdateCall ''rg1'' ''G2''
        (nsg_G2\<lparr>security_rules :=
           [ssh_rule, new_rule_G1\<lparr>priority := 101\<rparr>]\<rparr>),
      CreateOrUpdateCall ''rg1'' ''G3''
        (nsg_G3\<lparr>security_rules :=
           [cluster_rule\<lparr>destination_port_ranges :=
              [''8000'', ''8000'', ''8001-8010'']\<rparr>]\<rparr>)] \<and>
   nsgs (snd (open_ports ''c1'' [''8000'', ''8001-8010''] (Some cfg0)
                (world_of [nsg_G1, nsg_G2, nsg_G3] refuse_G2))) ''s1'' ''rg1'' =
     [nsg_G1\<lparr>security_rules := [new_rule_G1]\<rparr>,
      nsg_G2,
      nsg_G3\<lparr>security_rules :=
        [cluster_rule\<lparr>destination_port_ranges :=
           [''8000'', ''8000'', ''8001-8010'']\<rparr>]\<rparr>] \<and>
   log (snd (open_ports ''c1'' [''8000'', ''8001-8010''] (Some cfg0)
               (world_of [nsg_G1, nsg_G2, nsg_G3] refuse_G2))) =
     [''Failed to open ports ['8000', '8001-8010'] in NSG G2: (Conflict)'']"
proof -
  let ?w = "world_of [nsg_G1, nsg_G2, nsg_G3] refuse_G2"
  let ?ps = "[''8000'', ''8001-8010'']"
  have r: "ready cfg0 ?w ''s1'' ''rg1''"
    by (rule ready_world_of)
  have f: "refuse_G2 ''rg1'' ''G2'' (reconcile_nsg ''sky-ports-c1'' ?ps nsg_G2)
             = Some ''(Conflict)''"
    by (simp add: refuse_G2_def)
  have n: "nsgs ?w ''s1'' ''rg1'' = [nsg_G1, nsg_G2, nsg_G3]"
    by (simp add: nsgs_world_of)
  have d: "distinct (map nsg_name (nsgs ?w ''s1'' ''rg1''))"
    unfolding n by (simp add: nsg_G1_def nsg_G2_def nsg_G3_def)
  have h: "http_error ?w = refuse_G2"
    by (simp add: world_of_def)
  have l: "log ?w = []" "calls ?w = []"
    by (simp_all add: world_of_def)
  have k: "nsg_name nsg_G1 = ''G1''" "nsg_name nsg_G2 = ''G2''" "nsg_name nsg_G3 = ''G3''"
    by (simp_all add: nsg_G1_def nsg_G2_def nsg_G3_def)
  have g1: "reconcile_nsg ''sky-ports-c1'' ?ps nsg_G1
              = nsg_G1\<lparr>security_rules := [new_rule_G1]\<rparr>"
    by (simp add: reconcile_nsg_def nsg_G1_def new_rule_G1_def create_security_rule_def)
  have g2: "reconcile_nsg ''sky-ports-c1'' ?ps nsg_G2
              = nsg_G2\<lparr>security_rules := [ssh_rule, new_rule_G1\<lparr>priority := 101\<rparr>]\<rparr>"
    by (simp add: reconcile_nsg_def nsg_G2_def ssh_rule_def new_rule_G1_def
        create_security_rule_def)
  have g3: "reconcile_nsg ''sky-ports-c1'' ?ps nsg_G3
              = nsg_G3\<lparr>security_rules :=
                   [cluster_rule\<lparr>destination_port_ranges :=
                      [''8000'', ''8000'', ''8001-8010'']\<rparr>]\<rparr>"
    by (simp add: reconcile_nsg_def nsg_G3_def cluster_rule_def)
  have s1: "stored_nsg refuse_G2 ''rg1'' ''sky-ports-c1'' ?ps nsg_G1
              = nsg_G1\<lparr>security_rules := [new_rule_G1]\<rparr>"
    unfolding stored_nsg_def g1 by (simp add: refuse_G2_def nsg_G1_def)
  have s2: "stored_nsg refuse_G2 ''rg1'' ''sky-ports-c1'' ?ps nsg_G2 = nsg_G2"
    by (simp add: stored_nsg_def refuse_G2_def k)
  have s3: "stored_nsg refuse_G2 ''rg1'' ''sky-ports-c1'' ?ps nsg_G3
              = nsg_G3\<lparr>security_rules :=
                   [cluster_rule\<lparr>destination_port_ranges :=
                      [''8000'', ''8000'', ''8001-8010'']\<rparr>]\<rparr>"
    unfolding stored_nsg_def g3 by (simp add: refuse_G2_def nsg_G3_def)
  have e: "refuse_G2 ''rg1'' ''G1'' x = None" "refuse_G2 ''rg1'' ''G2'' x = Some ''(Conflict)''"
    "refuse_G2 ''rg1'' ''G3'' x = None" for x
    by (simp_all add: refuse_G2_def)
  have t: "py_str_list ?ps = ''['8000', '8001-8010']''"
    by (simp add: py_str_list_def py_repr_def py_repr_char_def Let_def)
  from open_ports_continues_after_http_error [OF r, of "''c1''" ?ps] d
  have "fst (open_ports ''c1'' ?ps (Some cfg0) ?w) = None \<and>
     calls (snd (open_ports ''c1'' ?ps (Some cfg0) ?w)) =
       [ListCall ''rg1'',
        CreateOrUpdateCall ''rg1'' ''G1'' (reconcile_nsg ''sky-ports-c1'' ?ps nsg_G1),
        CreateOrUpdateCall ''rg1'' ''G2'' (reconcile_nsg ''sky-ports-c1'' ?ps nsg_G2),
        CreateOrUpdateCall ''rg1'' ''G3'' (reconcile_nsg ''sky-ports-c1'' ?ps nsg_G3)] \<and>
     nsgs (snd (open_ports ''c1'' ?ps (Some cfg0) ?w)) ''s1'' ''rg1'' =
       [stored_nsg refuse_G2 ''rg1'' ''sky-ports-c1'' ?ps nsg_G1,
        stored_nsg refuse_G2 ''rg1'' ''sky-ports-c1'' ?ps nsg_G2,
        stored_nsg refuse_G2 ''rg1'' ''sky-ports-c1'' ?ps nsg_G3] \<and>
     log (snd (open_ports ''c1'' ?ps (Some cfg0) ?w)) =
       [''Failed to open ports '' @ py_str_list ?ps @ '' in NSG G2: (Conflict)'']"
    unfolding h l n by (simp add: k e)
  then show ?thesis using r f by (simp add: g1 g2 g3 s1 s2 s3 t)
qed

text \<open>
  Claim C3. In a group that has a rule named \<open>sky-ports-<cluster>\<close> the group is written
  back with the same rules in the same order, except that the first rule of that name
  has the requested ports appended to its destination port ranges: the written rule is
  the old one with that one field updated, and no rule is added.
\<close>

theorem open_ports_extends_existing_rule:
  assumes "ready cfg w sub rg" and "g \<in> set (nsgs w sub rg)"
    and "\<exists>r \<in> set (security_rules g). name r = ''sky-ports-'' @ c"
  shows "\<exists>pre r post.
     security_rules g = pre @ r # post \<and> name r = ''sky-ports-'' @ c \<and>
     (\<forall>p \<in> set pre. name p \<noteq> ''sky-ports-'' @ c) \<and>
     CreateOrUpdateCall rg (nsg_name g)
       (g\<lparr>security_rules :=
            pre @ r\<lparr>destination_port_ranges := destination_port_ranges r @ ports\<rparr> # post\<rparr>)
       \<in> set (calls (snd (open_ports c ports (Some cfg) w)))"
proof -
  obtain pre r post where s: "security_rules g = pre @ r # post"
    "name r = ''sky-ports-'' @ c" "\<forall>p \<in> set pre. name p \<noteq> ''sky-ports-'' @ c"
    using split_list_first_prop [OF assms(3)] by blast
  have "CreateOrUpdateCall rg (nsg_name g)
       (g\<lparr>security_rules :=
            pre @ r\<lparr>destination_port_ranges := destination_port_ranges r @ ports\<rparr> # post\<rparr>)
       \<in> set (calls (snd (open_ports c ports (Some cfg) w)))"
    using open_ports_writes [OF assms(1,2), of c ports]
      reconcile_nsg_present [OF s(1) s(3) s(2), of ports]
    by simp
  with s show ?thesis by blast
qed

theorem open_ports_extends_existing_rule_witness:
  "ready cfg0 (world_of [nsg_B] no_errors) ''s1'' ''rg1'' \<and>
   nsg_B \<in> set (nsgs (world_of [nsg_B] no_errors) ''s1'' ''rg1'') \<and>
   map name (security_rules nsg_B) = [''default-allow-ssh'', ''sky-ports-c1''] \<and>
   CreateOrUpdateCall ''rg1'' ''nsg-B''
     \<lparr> nsg_name = ''nsg-B'',
       security_rules =
         [ssh_rule, cluster_rule\<lparr>destination_port_ranges := [''8000'', ''9000'']\<rparr>] \<rparr>
     \<in> set (calls (snd (open_ports ''c1'' [''9000''] (Some cfg0) (world_of [nsg_B] no_errors))))"
proof -
  have r: "ready cfg0 (world_of [nsg_B] no_errors) ''s1'' ''rg1''"
    by (rule ready_world_of)
  have m: "nsg_B \<in> set (nsgs (world_of [nsg_B] no_errors) ''s1'' ''rg1'')"
    by (simp add: nsgs_world_of)
  have n: "map name (security_rules nsg_B) = [''default-allow-ssh'', ''sky-ports-c1'']"
    by (simp add: nsg_B_def ssh_rule_def cluster_rule_def)
  have a: "\<exists>r \<in> set (security_rules nsg_B). name r = ''sky-ports-'' @ ''c1''"
    by (simp add: nsg_B_def cluster_rule_def)
  obtain pre r post where s: "security_rules nsg_B = pre @ r # post"
    "name r = ''sky-ports-'' @ ''c1''" "\<forall>p \<in> set pre. name p \<noteq> ''sky-ports-'' @ ''c1''"
    and c: "CreateOrUpdateCall ''rg1'' (nsg_name nsg_B)
       (nsg_B\<lparr>security_rules :=
            pre @ r\<lparr>destination_port_ranges := destination_port_ranges r @ [''9000'']\<rparr> # post\<rparr>)
       \<in> set (calls (snd (open_ports ''c1'' [''9000''] (Some cfg0) (world_of [nsg_B] no_errors))))"
    using open_ports_extends_existing_rule [OF r m a, of "[''9000'']"] by blast
  have "[ssh_rule, cluster_rule] = pre @ r # post"
    using s(1) by (simp add: nsg_B_def)
  then have "pre = [ssh_rule] \<and> r = cluster_rule \<and> post = []"
    using s(2,3) by (auto simp: Cons_eq_append_conv ssh_rule_def)
  with c have "CreateOrUpdateCall ''rg1'' ''nsg-B''
     \<lparr> nsg_name = ''nsg-B'',
       security_rules =
         [ssh_rule, cluster_rule\<lparr>destination_port_ranges := [''8000'', ''9000'']\<rparr>] \<rparr>
     \<in> set (calls (snd (open_ports ''c1'' [''9000''] (Some cfg0) (world_of [nsg_B] no_errors))))"
    by (simp add: nsg_B_def cluster_rule_def)
  with r m n show ?thesis by blast
qed

text \<open>
  Claim C4. In a group with no rule named \<open>sky-ports-<cluster>\<close> the group is written back
  with its old rules followed by one new rule: name \<open>sky-ports-<cluster>\<close>, direction
  Inbound, protocol Tcp, access Allow, source address prefix, source port range and
  destination address prefix \<open>*\<close>, and the requested ports as destination port ranges.
  The witness is the example of the specification: one inbound rule at priority 100,
  cluster \<open>c1\<close>, ports 8000 and 8001-8010, new rule at priority 101.
\<close>

theorem open_ports_new_rule_fields:
  assumes "ready cfg w sub rg" and "g \<in> set (nsgs w sub rg)"
    and "\<forall>r \<in> set (security_rules g). name r \<noteq> ''sky-ports-'' @ c"
  shows "CreateOrUpdateCall rg (nsg_name g)
           (g\<lparr>security_rules := security_rules g @
              [\<lparr> name = ''sky-ports-'' @ c,
                 priority = Max (insert 0 (set (inbound_priorities (security_rules g)))) + 1,
                 protocol = ''Tcp'', access = ''Allow'', direction = ''Inbound'',
                 source_address_prefix = ''*'', source_port_range = ''*'',
                 destination_address_prefix = ''*'', destination_port_ranges = ports \<rparr>]\<rparr>)
         \<in> set (calls (snd (open_ports c ports (Some cfg) w)))"
  using open_ports_writes [OF assms(1,2), of c ports] reconcile_nsg_absent [OF assms(3), of ports]
  by (simp add: create_security_rule_def)

theorem open_ports_new_rule_fields_witness:
  "ready cfg0 (world_of [nsg_A] no_errors) ''s1'' ''rg1'' \<and>
   nsg_A \<in> set (nsgs (world_of [nsg_A] no_errors) ''s1'' ''rg1'') \<and>
   map name (security_rules nsg_A) = [''default-allow-ssh''] \<and>
   CreateOrUpdateCall ''rg1'' ''nsg-A''
     \<lparr> nsg_name = ''nsg-A'',
       security_rules =
         [ssh_rule,
          \<lparr> name = ''sky-ports-c1'', priority = 101,
             protocol = ''Tcp'', access = ''Allow'', direction = ''Inbound'',
             source_address_prefix = ''*'', source_port_range = ''*'',
             destination_address_prefix = ''*'',
             destination_port_ranges = [''8000'', ''8001-8010''] \<rparr>] \<rparr>
     \<in> set (calls (snd (open_ports ''c1'' [''8000'', ''8001-8010''] (Some cfg0)
                           (world_of [nsg_A] no_errors))))"
proof -
  have r: "ready cfg0 (world_of [nsg_A] no_errors) ''s1'' ''rg1''"
    by (rule ready_world_of)
  have m: "nsg_A \<in> set (nsgs (world_of [nsg_A] no_errors) ''s1'' ''rg1'')"
    by (simp add: nsgs_world_of)
  have n: "map name (security_rules nsg_A) = [''default-allow-ssh'']"
    by (simp add: nsg_A_def ssh_rule_def)
  have a: "\<forall>r \<in> set (security_rules nsg_A). name r \<noteq> ''sky-ports-'' @ ''c1''"
    by (simp add: nsg_A_def ssh_rule_def)
  have i: "inbound_priorities (security_rules nsg_A) = [100]"
    by (simp add: inbound_priorities_def nsg_A_def ssh_rule_def)
  have "CreateOrUpdateCall ''rg1'' ''nsg-A''
     \<lparr> nsg_name = ''nsg-A'',
       security_rules =
         [ssh_rule,
          \<lparr> name = ''sky-ports-c1'', priority = 101,
             protocol = ''Tcp'', access = ''Allow'', direction = ''Inbound'',
             source_address_prefix = ''*'', source_port_range = ''*'',
             destination_address_prefix = ''*'',
             destination_port_ranges = [''8000'', ''8001-8010''] \<rparr>] \<rparr>
     \<in> set (calls (snd (open_ports ''c1'' [''8000'', ''8001-8010''] (Some cfg0)
                           (world_of [nsg_A] no_errors))))"
    using open_ports_new_rule_fields [OF r m a, of "[''8000'', ''8001-8010'']"]
    unfolding i by (simp add: nsg_A_def)
  with r m n show ?thesis by blast
qed

text \<open>
  Claim C5. When the inbound rules of a group have pairwise different priorities, so
  have the inbound rules of the group that \<open>open_ports\<close> writes back for it, whether the
  cluster's rule was extended or created. Over the whole store: when the group names
  are distinct and every listed group has the property, every group of the resource
  group has it after the call, whichever writes the platform refused.
\<close>

theorem open_ports_keeps_inbound_priorities_distinct:
  assumes "ready cfg w sub rg" and "g \<in> set (nsgs w sub rg)"
    and "distinct (inbound_priorities (security_rules g))"
  shows "CreateOrUpdateCall rg (nsg_name g) (reconcile_nsg (''sky-ports-'' @ c) ports g)
           \<in> set (calls (snd (open_ports c ports (Some cfg) w))) \<and>
         distinct (inbound_priorities
           (security_rules (reconcile_nsg (''sky-ports-'' @ c) ports g))) \<and>
         (distinct (map nsg_name (nsgs w sub rg)) \<and>
          (\<forall>h \<in> set (nsgs w sub rg). distinct (inbound_priorities (security_rules h))) \<longrightarrow>
          (\<forall>h \<in> set (nsgs (snd (open_ports c ports (Some cfg) w)) sub rg).
             distinct (inbound_priorities (security_rules h))))"
proof -
  have a: "CreateOrUpdateCall rg (nsg_name g) (reconcile_nsg (''sky-ports-'' @ c) ports g)
           \<in> set (calls (snd (open_ports c ports (Some cfg) w)))"
    by (rule open_ports_writes [OF assms(1,2)])
  have b: "distinct (inbound_priorities
           (security_rules (reconcile_nsg (''sky-ports-'' @ c) ports g)))"
    by (rule reconcile_nsg_distinct [OF assms(3)])
  have c: "\<forall>h \<in> set (nsgs (snd (open_ports c ports (Some cfg) w)) sub rg).
             distinct (inbound_priorities (security_rules h))"
    if d: "distinct (map nsg_name (nsgs w sub rg))"
      and i: "\<forall>h \<in> set (nsgs w sub rg). distinct (inbound_priorities (security_rules h))"
  proof
    fix h assume "h \<in> set (nsgs (snd (open_ports c ports (Some cfg) w)) sub rg)"
    then obtain k where k: "k \<in> set (nsgs w sub rg)"
      "h = stored_nsg (http_error w) rg (''sky-ports-'' @ c) ports k"
      unfolding open_ports_nsgs [OF assms(1) d] by auto
    from i k(1) have "distinct (inbound_priorities (security_rules k))" by blast
    then show "distinct (inbound_priorities (security_rules h))"
      using reconcile_nsg_distinct [of k "''sky-ports-'' @ c" ports]
      by (simp add: k(2) stored_nsg_def Let_def)
  qed
  from a b c show ?thesis by blast
qed

theorem open_ports_keeps_inbound_priorities_distinct_witness:
  "ready cfg0 (world_of [nsg_A] no_errors) ''s1'' ''rg1'' \<and>
   nsg_A \<in> set (nsgs (world_of [nsg_A] no_errors) ''s1'' ''rg1'') \<and>
   inbound_priorities (security_rules nsg_A) = [100] \<and>
   inbound_priorities (security_rules (reconcile_nsg (''sky-ports-'' @ ''c1'') [''8000''] nsg_A))
     = [100, 101] \<and>
   distinct (inbound_priorities
     (security_rules (reconcile_nsg (''sky-ports-'' @ ''c1'') [''8000''] nsg_A)))"
proof -
  have r: "ready cfg0 (world_of [nsg_A] no_errors) ''s1'' ''rg1''"
    by (rule ready_world_of)
  have m: "nsg_A \<in> set (nsgs (world_of [nsg_A] no_errors) ''s1'' ''rg1'')"
    by (simp add: nsgs_world_of)
  have i: "inbound_priorities (security_rules nsg_A) = [100]"
    by (simp add: inbound_priorities_def nsg_A_def ssh_rule_def)
  have d: "distinct (inbound_priorities (security_rules nsg_A))"
    by (simp add: i)
  have e: "inbound_priorities
      (security_rules (reconcile_nsg (''sky-ports-'' @ ''c1'') [''8000''] nsg_A)) = [100, 101]"
    by (simp add: reconcile_nsg_def nsg_A_def ssh_rule_def inbound_priorities_def
        create_security_rule_def)
  from open_ports_keeps_inbound_priorities_distinct [OF r m d, of "''c1''" "[''8000'']"] r m i e
  show ?thesis by blast
qed

text \<open>
  Claim C6. Two calls with the same ports, both writes of the group accepted by the
  platform (group names being distinct): after the first call the cluster's rule in the
  group has the ports once after what it had before (nothing, when the rule was
  created), after the second call it has them twice, one copy after the other. With a
  non-empty list of ports the second call changes the group again.
\<close>

theorem open_ports_twice_duplicates_ports:
  assumes "ready cfg w sub rg" and "distinct (map nsg_name (nsgs w sub rg))"
    and "g \<in> set (nsgs w sub rg)"
    and "http_error w rg (nsg_name g) (reconcile_nsg (''sky-ports-'' @ c) ports g) = None"
    and "http_error w rg (nsg_name g)
           (reconcile_nsg (''sky-ports-'' @ c) ports
              (reconcile_nsg (''sky-ports-'' @ c) ports g)) = None"
  shows "\<exists>g1 g2.
     g1 \<in> set (nsgs (snd (open_ports c ports (Some cfg) w)) sub rg) \<and>
     g2 \<in> set (nsgs (snd (open_ports c ports (Some cfg)
                           (snd (open_ports c ports (Some cfg) w)))) sub rg) \<and>
     nsg_name g1 = nsg_name g \<and> nsg_name g2 = nsg_name g \<and>
     binding_ports (''sky-ports-'' @ c) g1 =
       Some ((case binding_ports (''sky-ports-'' @ c) g of None \<Rightarrow> [] | Some d \<Rightarrow> d) @ ports) \<and>
     binding_ports (''sky-ports-'' @ c) g2 =
       Some ((case binding_ports (''sky-ports-'' @ c) g of None \<Rightarrow> [] | Some d \<Rightarrow> d)
               @ ports @ ports) \<and>
     (ports \<noteq> [] \<longrightarrow> g2 \<noteq> g1)"
proof -
  let ?rn = "''sky-ports-'' @ c"
  let ?w1 = "snd (open_ports c ports (Some cfg) w)"
  let ?w2 = "snd (open_ports c ports (Some cfg) ?w1)"
  let ?g1 = "reconcile_nsg ?rn ports g"
  let ?g2 = "reconcile_nsg ?rn ports ?g1"
  let ?d = "case binding_ports ?rn g of None \<Rightarrow> [] | Some d \<Rightarrow> d"
  have p: "http_error ?w1 = http_error w"
    "network_security_groups ?w1 = network_security_groups w"
    using open_ports_keeps_platform [OF assms(1), of c ports] by simp_all
  have r1: "ready cfg ?w1 sub rg"
    using assms(1) by (simp add: ready_def p)
  have n1: "nsgs ?w1 sub rg = map (stored_nsg (http_error w) rg ?rn ports) (nsgs w sub rg)"
    by (rule open_ports_nsgs [OF assms(1,2)])
  have d1: "distinct (map nsg_name (nsgs ?w1 sub rg))"
    using assms(2) by (simp add: n1 comp_def)
  have n2: "nsgs ?w2 sub rg = map (stored_nsg (http_error w) rg ?rn ports) (nsgs ?w1 sub rg)"
    using open_ports_nsgs [OF r1 d1, of c ports] by (simp add: p)
  have s1: "stored_nsg (http_error w) rg ?rn ports g = ?g1"
    using assms(4) by (simp add: stored_nsg_def)
  have s2: "stored_nsg (http_error w) rg ?rn ports ?g1 = ?g2"
    using assms(5) by (simp add: stored_nsg_def)
  have m1: "?g1 \<in> set (nsgs ?w1 sub rg)"
    unfolding n1 using assms(3) s1 by force
  have m2: "?g2 \<in> set (nsgs ?w2 sub rg)"
    unfolding n2 using m1 s2 by force
  have b1: "binding_ports ?rn ?g1 = Some (?d @ ports)"
    by (rule binding_ports_reconcile_nsg)
  have b2': "binding_ports ?rn ?g2 =
      Some ((case binding_ports ?rn ?g1 of None \<Rightarrow> [] | Some d \<Rightarrow> d) @ ports)"
    by (rule binding_ports_reconcile_nsg)
  have b2: "binding_ports ?rn ?g2 = Some (?d @ ports @ ports)"
    unfolding b2' b1 by simp
  have ne: "?g2 \<noteq> ?g1" if "ports \<noteq> []"
  proof
    assume "?g2 = ?g1"
    then have "binding_ports ?rn ?g2 = binding_ports ?rn ?g1" by simp
    then have "Some (?d @ ports @ ports) = Some (?d @ ports)" unfolding b1 b2 .
    with that show False by simp
  qed
  from m1 m2 b1 b2 ne show ?thesis
    by (intro exI [of _ ?g1] exI [of _ ?g2]) simp
qed

theorem open_ports_twice_duplicates_ports_witness:
  "ready cfg0 (world_of [nsg_A] no_errors) ''s1'' ''rg1'' \<and>
   distinct (map nsg_name (nsgs (world_of [nsg_A] no_errors) ''s1'' ''rg1'')) \<and>
   nsg_A \<in> set (nsgs (world_of [nsg_A] no_errors) ''s1'' ''rg1'') \<and>
   binding_ports ''sky-ports-c1'' nsg_A = None \<and>
   (\<exists>g1 g2.
     g1 \<in> set (nsgs (snd (open_ports ''c1'' [''8000''] (Some cfg0)
                            (world_of [nsg_A] no_errors))) ''s1'' ''rg1'') \<and>
     g2 \<in> set (nsgs (snd (open_ports ''c1'' [''8000''] (Some cfg0)
                       (snd (open_ports ''c1'' [''8000''] (Some cfg0)
                              (world_of [nsg_A] no_errors))))) ''s1'' ''rg1'') \<and>
     nsg_name g1 = ''nsg-A'' \<and> nsg_name g2 = ''nsg-A'' \<and>
     binding_ports ''sky-ports-c1'' g1 = Some [''8000''] \<and>
     binding_ports ''sky-ports-c1'' g2 = Some [''8000'', ''8000''] \<and>
     g2 \<noteq> g1)"
proof -
  let ?w = "world_of [nsg_A] no_errors"
  have r: "ready cfg0 ?w ''s1'' ''rg1''"
    by (rule ready_world_of)
  have d: "distinct (map nsg_name (nsgs ?w ''s1'' ''rg1''))"
    by (simp add: nsgs_world_of)
  have m: "nsg_A \<in> set (nsgs ?w ''s1'' ''rg1'')"
    by (simp add: nsgs_world_of)
  have b: "binding_ports ''sky-ports-c1'' nsg_A = None"
    by (simp add: binding_ports_def nsg_A_def ssh_rule_def)
  have h: "http_error ?w ''rg1'' n g = None" for n g
    by (simp add: world_of_def no_errors_def)
  from open_ports_twice_duplicates_ports [OF r d m h h, of "''c1''" "[''8000'']"]
  have "\<exists>g1 g2.
     g1 \<in> set (nsgs (snd (open_ports ''c1'' [''8000''] (Some cfg0) ?w)) ''s1'' ''rg1'') \<and>
     g2 \<in> set (nsgs (snd (open_ports ''c1'' [''8000''] (Some cfg0)
                       (snd (open_ports ''c1'' [''8000''] (Some cfg0) ?w)))) ''s1'' ''rg1'') \<and>
     nsg_name g1 = ''nsg-A'' \<and> nsg_name g2 = ''nsg-A'' \<and>
     binding_ports ''sky-ports-c1'' g1 = Some [''8000''] \<and>
     binding_ports ''sky-ports-c1'' g2 = Some [''8000'', ''8000''] \<and>
     g2 \<noteq> g1"
    using b by (simp add: nsg_A_def)
  with r d m b show ?thesis by blast
qed

text \<open>
  Claim C7. When the configuration lacks \<open>subscription_id\<close> or \<open>resource_group\<close>, the call
  raises the \<open>KeyError\<close> of the first missing key (the specification's
  \<open>ConfigurationError\<close>) and leaves the world as it was: no store call was made, nothing
  was logged and no group changed.
\<close>

theorem open_ports_missing_key:
  assumes "cfg ''subscription_id'' = None \<or> cfg ''resource_group'' = None"
  shows "open_ports c ports (Some cfg) w =
           (Some (KeyError (if cfg ''subscription_id'' = None
                            then ''subscription_id'' else ''resource_group'')), w)"
  using assms by (auto simp: open_ports_def split: option.splits)

theorem open_ports_missing_key_witness:
  "cfg_no_rg ''subscription_id'' = Some ''s1'' \<and> cfg_no_rg ''resource_group'' = None \<and>
   open_ports ''c1'' [''8000''] (Some cfg_no_rg) (world_of [nsg_A] no_errors) =
     (Some (KeyError ''resource_group''), world_of [nsg_A] no_errors) \<and>
   calls (snd (open_ports ''c1'' [''8000''] (Some cfg_no_rg) (world_of [nsg_A] no_errors))) = []"
proof -
  have s: "cfg_no_rg ''subscription_id'' = Some ''s1''"
    by (simp add: cfg_no_rg_def)
  have h: "cfg_no_rg ''resource_group'' = None"
    by (simp add: cfg_no_rg_def)
  then have "cfg_no_rg ''subscription_id'' = None \<or> cfg_no_rg ''resource_group'' = None"
    by blast
  from open_ports_missing_key [OF this, of "''c1''" "[''8000'']" "world_of [nsg_A] no_errors"]
  have "open_ports ''c1'' [''8000''] (Some cfg_no_rg) (world_of [nsg_A] no_errors) =
     (Some (KeyError ''resource_group''), world_of [nsg_A] no_errors)"
    by (simp add: s)
  moreover have "calls (world_of [nsg_A] no_errors) = []"
    by (simp add: world_of_def)
  ultimately show ?thesis using s h by simp
qed

text \<open>
  Claim C8, as stated, fails: with no ports, a group that has no rule of the cluster
  still gets a new rule, with an empty list of destination port ranges.
\<close>

theorem open_ports_no_ports_counterexample:
  "nsgs (world_of [nsg_A] no_errors) ''s1'' ''rg1'' = [nsg_A] \<and>
   nsgs (snd (open_ports ''c1'' [] (Some cfg0) (world_of [nsg_A] no_errors))) ''s1'' ''rg1'' =
     [nsg_A\<lparr>security_rules := [ssh_rule, empty_ports_rule]\<rparr>] \<and>
   nsgs (snd (open_ports ''c1'' [] (Some cfg0) (world_of [nsg_A] no_errors))) ''s1'' ''rg1'' \<noteq>
     nsgs (world_of [nsg_A] no_errors) ''s1'' ''rg1''"
proof -
  let ?w = "world_of [nsg_A] no_errors"
  have n: "nsgs ?w ''s1'' ''rg1'' = [nsg_A]"
    by (simp add: nsgs_world_of)
  have d: "distinct (map nsg_name (nsgs ?w ''s1'' ''rg1''))"
    by (simp add: n)
  have h: "http_error ?w = no_errors"
    by (simp add: world_of_def)
  have g: "reconcile_nsg ''sky-ports-c1'' [] nsg_A
             = nsg_A\<lparr>security_rules := [ssh_rule, empty_ports_rule]\<rparr>"
    by (simp add: reconcile_nsg_def nsg_A_def ssh_rule_def empty_ports_rule_def
        create_security_rule_def)
  have s: "stored_nsg no_errors ''rg1'' ''sky-ports-c1'' [] nsg_A
             = nsg_A\<lparr>security_rules := [ssh_rule, empty_ports_rule]\<rparr>"
    unfolding stored_nsg_def g by (simp add: no_errors_def)
  have a: "nsgs (snd (open_ports ''c1'' [] (Some cfg0) ?w)) ''s1'' ''rg1'' =
     [nsg_A\<lparr>security_rules := [ssh_rule, empty_ports_rule]\<rparr>]"
    using open_ports_nsgs [OF ready_world_of d, of "''c1''" "[]"]
    by (simp add: h n s)
  have "nsg_A\<lparr>security_rules := [ssh_rule, empty_ports_rule]\<rparr> \<noteq> nsg_A"
    by (simp add: nsg_A_def)
  with n a show ?thesis by simp
qed

text \<open>
  Claim C8, amended. With no ports, a listed group that already has a rule named
  \<open>sky-ports-<cluster>\<close> is written back as it is and (group names being distinct) is the
  same in the store after the call; the listing has the same length, and when every
  listed group has such a rule the groups of the resource group are unchanged.
\<close>

theorem open_ports_no_ports_keeps_bound_groups:
  assumes "ready cfg w sub rg" and "distinct (map nsg_name (nsgs w sub rg))"
    and "i < length (nsgs w sub rg)"
    and "\<exists>r \<in> set (security_rules (nsgs w sub rg ! i)). name r = ''sky-ports-'' @ c"
  shows "CreateOrUpdateCall rg (nsg_name (nsgs w sub rg ! i)) (nsgs w sub rg ! i)
           \<in> set (calls (snd (open_ports c [] (Some cfg) w))) \<and>
         length (nsgs (snd (open_ports c [] (Some cfg) w)) sub rg) = length (nsgs w sub rg) \<and>
         nsgs (snd (open_ports c [] (Some cfg) w)) sub rg ! i = nsgs w sub rg ! i \<and>
         ((\<forall>g \<in> set (nsgs w sub rg). \<exists>r \<in> set (security_rules g). name r = ''sky-ports-'' @ c)
            \<longrightarrow> nsgs (snd (open_ports c [] (Some cfg) w)) sub rg = nsgs w sub rg)"
proof -
  let ?gs = "nsgs w sub rg"
  let ?rn = "''sky-ports-'' @ c"
  have m: "?gs ! i \<in> set ?gs"
    using assms(3) by simp
  have k: "stored_nsg (http_error w) rg ?rn [] g = g"
    if "\<exists>r \<in> set (security_rules g). name r = ?rn" for g
    using reconcile_nsg_no_ports [OF that] by (simp add: stored_nsg_def)
  have a: "CreateOrUpdateCall rg (nsg_name (?gs ! i)) (?gs ! i)
           \<in> set (calls (snd (open_ports c [] (Some cfg) w)))"
    using open_ports_writes [OF assms(1) m, of c "[]"] reconcile_nsg_no_ports [OF assms(4)]
    by simp
  have n: "nsgs (snd (open_ports c [] (Some cfg) w)) sub rg =
             map (stored_nsg (http_error w) rg ?rn []) ?gs"
    by (rule open_ports_nsgs [OF assms(1,2)])
  have b: "length (nsgs (snd (open_ports c [] (Some cfg) w)) sub rg) = length ?gs"
    by (simp add: n)
  have e: "nsgs (snd (open_ports c [] (Some cfg) w)) sub rg ! i = ?gs ! i"
    using assms(3) k [OF assms(4)] by (simp add: n)
  have f: "nsgs (snd (open_ports c [] (Some cfg) w)) sub rg = ?gs"
    if "\<forall>g \<in> set ?gs. \<exists>r \<in> set (security_rules g). name r = ?rn"
    unfolding n using that k by (simp add: map_idI)
  from a b e f show ?thesis by blast
qed

theorem open_ports_no_ports_keeps_bound_groups_witness:
  "ready cfg0 (world_of [nsg_A, nsg_B] no_errors) ''s1'' ''rg1'' \<and>
   distinct (map nsg_name (nsgs (world_of [nsg_A, nsg_B] no_errors) ''s1'' ''rg1'')) \<and>
   (1::nat) < length (nsgs (world_of [nsg_A, nsg_B] no_errors) ''s1'' ''rg1'') \<and>
   nsgs (world_of [nsg_A, nsg_B] no_errors) ''s1'' ''rg1'' ! 1 = nsg_B \<and>
   map name (security_rules nsg_B) = [''default-allow-ssh'', ''sky-ports-c1''] \<and>
   CreateOrUpdateCall ''rg1'' ''nsg-B'' nsg_B
     \<in> set (calls (snd (open_ports ''c1'' [] (Some cfg0) (world_of [nsg_A, nsg_B] no_errors)))) \<and>
   nsgs (snd (open_ports ''c1'' [] (Some cfg0) (world_of [nsg_A, nsg_B] no_errors)))
     ''s1'' ''rg1'' ! 1 = nsg_B"
proof -
  let ?w = "world_of [nsg_A, nsg_B] no_errors"
  have r: "ready cfg0 ?w ''s1'' ''rg1''"
    by (rule ready_world_of)
  have n: "nsgs ?w ''s1'' ''rg1'' = [nsg_A, nsg_B]"
    by (simp add: nsgs_world_of)
  have d: "distinct (map nsg_name (nsgs ?w ''s1'' ''rg1''))"
    unfolding n by (simp add: nsg_A_def nsg_B_def)
  have l: "(1::nat) < length (nsgs ?w ''s1'' ''rg1'')"
    by (simp add: n)
  have b: "nsgs ?w ''s1'' ''rg1'' ! 1 = nsg_B"
    by (simp add: n)
  have q: "map name (security_rules nsg_B) = [''default-allow-ssh'', ''sky-ports-c1'']"
    by (simp add: nsg_B_def ssh_rule_def cluster_rule_def)
  have e: "\<exists>r \<in> set (security_rules (nsgs ?w ''s1'' ''rg1'' ! 1)). name r = ''sky-ports-'' @ ''c1''"
    unfolding b by (simp add: nsg_B_def cluster_rule_def)
  have "CreateOrUpdateCall ''rg1'' ''nsg-B'' nsg_B
     \<in> set (calls (snd (open_ports ''c1'' [] (Some cfg0) ?w))) \<and>
     nsgs (snd (open_ports ''c1'' [] (Some cfg0) ?w)) ''s1'' ''rg1'' ! 1 = nsg_B"
    using open_ports_no_ports_keeps_bound_groups [OF r d l e] unfolding b
    by (simp add: nsg_B_def)
  with r d l b q show ?thesis by blast
qed

text \<open>
  Claim C9. On a client object that has neither \<open>list\<close> nor \<open>begin_list\<close> and, as the
  instances of the SDK's operation classes, no \<open>__name__\<close>, building the message fails
  first: the error raised is the \<open>AttributeError\<close> for \<open>__name__\<close>, whose message names
  neither \<open>list\<close> nor \<open>begin_list\<close>.
\<close>

theorem get_azure_sdk_function_no_dunder_name:
  "get_azure_sdk_function bare_client ''list'' =
     Inl (AttributeError
       ([CHR 0x27] @ ''NetworkSecurityGroupsOperations'' @ [CHR 0x27] @
        '' object has no attribute '' @ [CHR 0x27] @ ''__name__'' @ [CHR 0x27]))"
  by (simp add: get_azure_sdk_function_def getattr_def bare_client_def)

text \<open>
  Claim C10. The scan compares names only. When the first rule named
  \<open>sky-ports-<cluster>\<close> of a group has direction Outbound, that rule gets the requested
  ports appended and the group is written back with the same number of rules: no rule is
  created, so the inbound rules of that name are the ones the group had.
\<close>

theorem open_ports_extends_outbound_rule:
  assumes "ready cfg w sub rg" and "g \<in> set (nsgs w sub rg)"
    and "security_rules g = pre @ r # post"
    and "name r = ''sky-ports-'' @ c" and "direction r = ''Outbound''"
    and "\<forall>p \<in> set pre. name p \<noteq> ''sky-ports-'' @ c"
  shows "CreateOrUpdateCall rg (nsg_name g)
           (g\<lparr>security_rules :=
                pre @ r\<lparr>destination_port_ranges := destination_port_ranges r @ ports\<rparr> # post\<rparr>)
           \<in> set (calls (snd (open_ports c ports (Some cfg) w))) \<and>
         filter (\<lambda>x. name x = ''sky-ports-'' @ c \<and> direction x = ''Inbound'')
           (pre @ r\<lparr>destination_port_ranges := destination_port_ranges r @ ports\<rparr> # post) =
         filter (\<lambda>x. name x = ''sky-ports-'' @ c \<and> direction x = ''Inbound'')
           (security_rules g)"
  using open_ports_writes [OF assms(1,2), of c ports]
    reconcile_nsg_present [OF assms(3) assms(6) assms(4), of ports] assms(3,5)
  by simp

theorem open_ports_extends_outbound_rule_witness:
  "ready cfg0 (world_of [nsg_C] no_errors) ''s1'' ''rg1'' \<and>
   nsg_C \<in> set (nsgs (world_of [nsg_C] no_errors) ''s1'' ''rg1'') \<and>
   security_rules nsg_C = [ssh_rule] @ outbound_rule # [] \<and>
   name outbound_rule = ''sky-ports-c1'' \<and> direction outbound_rule = ''Outbound'' \<and>
   name ssh_rule = ''default-allow-ssh'' \<and>
   CreateOrUpdateCall ''rg1'' ''nsg-C''
     \<lparr> nsg_name = ''nsg-C'',
       security_rules =
         [ssh_rule, outbound_rule\<lparr>destination_port_ranges := [''443'', ''8000'']\<rparr>] \<rparr>
     \<in> set (calls (snd (open_ports ''c1'' [''8000''] (Some cfg0) (world_of [nsg_C] no_errors))))"
proof -
  have r: "ready cfg0 (world_of [nsg_C] no_errors) ''s1'' ''rg1''"
    by (rule ready_world_of)
  have m: "nsg_C \<in> set (nsgs (world_of [nsg_C] no_errors) ''s1'' ''rg1'')"
    by (simp add: nsgs_world_of)
  have s: "security_rules nsg_C = [ssh_rule] @ outbound_rule # []"
    by (simp add: nsg_C_def)
  have n: "name outbound_rule = ''sky-ports-'' @ ''c1''" "direction outbound_rule = ''Outbound''"
    by (simp_all add: outbound_rule_def)
  have h: "name ssh_rule = ''default-allow-ssh''"
    by (simp add: ssh_rule_def)
  have p: "\<forall>p \<in> set [ssh_rule]. name p \<noteq> ''sky-ports-'' @ ''c1''"
    by (simp add: h)
  have "CreateOrUpdateCall ''rg1'' ''nsg-C''
     \<lparr> nsg_name = ''nsg-C'',
       security_rules =
         [ssh_rule, outbound_rule\<lparr>destination_port_ranges := [''443'', ''8000'']\<rparr>] \<rparr>
     \<in> set (calls (snd (open_ports ''c1'' [''8000''] (Some cfg0) (world_of [nsg_C] no_errors))))"
    using open_ports_extends_outbound_rule [OF r m s n p, of "[''8000'']"]
    by (simp add: nsg_C_def outbound_rule_def)
  with r m s n h show ?thesis by simp
qed

end
